theory Spec2Isabelle
  imports Main
begin

section \<open>The debug view model\<close>

text \<open>
  A shallow embedding of \<^verbatim>\<open>packages/debug/src/browser/view/debug-view-model.ts\<close>.
  The class \<^verbatim>\<open>DebugViewModel\<close> keeps a \<^verbatim>\<open>Set\<close> of debug sessions and an array of
  watch expressions, and fires emitters. Its mutable fields become a record that every
  method takes and returns. The emitters \<^verbatim>\<open>onDidChangeEmitter\<close> and
  \<^verbatim>\<open>onDidChangeWatchExpressionsEmitter\<close> carry no payload, and each is represented by
  the number of times it has fired.
\<close>

subsection \<open>Collaborator objects\<close>

text \<open>
  The classes \<^verbatim>\<open>DebugSession\<close>, \<^verbatim>\<open>DebugThread\<close>, \<^verbatim>\<open>DebugStackFrame\<close>,
  \<^verbatim>\<open>DebugSessionManager\<close> and \<^verbatim>\<open>DebugWatchExpression\<close> and the enum \<^verbatim>\<open>DebugState\<close>
  are imported from modules that are not among the sources. Each is represented by the
  members that the view model uses, with the types that their use there gives them.

  Sessions are JavaScript objects, compared by identity in the \<^verbatim>\<open>Set\<close> and by
  \<^verbatim>\<open>!==\<close>. A session is therefore a reference, and the properties of the object it
  points to are read through a heap. Two references may point to objects with equal
  properties.
\<close>

type_synonym session_ref = nat

text \<open>
  Of the enum \<^verbatim>\<open>DebugState\<close> the view model names only the member \<^verbatim>\<open>Inactive\<close>;
  \<open>Other n\<close> stands for the members it does not name. Whether a member is truthy depends
  on the value the enum gives it, so the getter \<^verbatim>\<open>state\<close> below takes the truthiness of
  the members as a parameter.
\<close>

datatype DebugState = Inactive | Other nat

datatype DebugStackFrame = DebugStackFrame nat

record DebugThread =
  thread_id :: nat
  thread_currentFrame :: "DebugStackFrame option"

type_synonym DebugSessionOptions = string

text \<open>The properties of a \<^verbatim>\<open>DebugSession\<close> that the view model reads.\<close>

record DebugSession =
  session_id :: string
  session_label :: string
  session_state :: DebugState
  session_currentThread :: "DebugThread option"
  session_options :: DebugSessionOptions

type_synonym heap = "session_ref \<Rightarrow> DebugSession"

text \<open>
  The session manager: its active session, and the sessions that its \<^verbatim>\<open>start\<close> and
  \<^verbatim>\<open>restart\<close> promises resolve to (\<^verbatim>\<open>start\<close> may resolve to \<^verbatim>\<open>undefined\<close>).
\<close>

record DebugSessionManager =
  mgr_currentSession :: "session_ref option"
  mgr_start :: "DebugSessionOptions \<Rightarrow> session_ref option"
  mgr_restart :: "session_ref \<Rightarrow> session_ref"

record DebugWatchExpression =
  expression :: string

subsection \<open>JavaScript values\<close>

text \<open>
  A \<^verbatim>\<open>Set\<close> iterates in insertion order and holds no element twice: a list, to which
  \<^verbatim>\<open>add\<close> appends unless the element is there, and from which \<^verbatim>\<open>delete\<close> removes the
  element, returning whether it was there.
\<close>

definition Set_has :: "'a \<Rightarrow> 'a list \<Rightarrow> bool" where
  "Set_has x xs = (x \<in> set xs)"

definition Set_add :: "'a \<Rightarrow> 'a list \<Rightarrow> 'a list" where
  "Set_add x xs = (if x \<in> set xs then xs else xs @ [x])"

definition Set_delete :: "'a \<Rightarrow> 'a list \<Rightarrow> bool \<times> 'a list" where
  "Set_delete x xs = (x \<in> set xs, removeAll x xs)"

text \<open>
  \<^verbatim>\<open>a || b\<close> where \<open>a\<close> is an object or \<^verbatim>\<open>undefined\<close> (or \<^verbatim>\<open>false\<close>, which is
  represented as \<open>None\<close> too): an object is truthy.
\<close>

definition or_else :: "'a option \<Rightarrow> 'a option \<Rightarrow> 'a option" where
  "or_else a b = (case a of None \<Rightarrow> b | Some x \<Rightarrow> Some x)"

text \<open>\<^verbatim>\<open>a || d\<close> where \<open>a\<close> is a string or \<^verbatim>\<open>undefined\<close>: the empty string is falsy.\<close>

definition or_string :: "string option \<Rightarrow> string \<Rightarrow> string" where
  "or_string a d = (case a of None \<Rightarrow> d | Some s \<Rightarrow> if s = [] then d else s)"

text \<open>
  Reading a property of \<^verbatim>\<open>undefined\<close> throws a \<^verbatim>\<open>TypeError\<close>. The other error is
  whatever a rejected promise carries.
\<close>

datatype error = TypeError | Error string

definition property :: "'o option \<Rightarrow> ('o \<Rightarrow> 'v) \<Rightarrow> error + 'v" where
  "property x p = (case x of None \<Rightarrow> Inl TypeError | Some obj \<Rightarrow> Inr (p obj))"

subsection \<open>State of the view model\<close>

record DebugViewModel =
  sessions :: "session_ref list"
  watchExpressions :: "DebugWatchExpression list"
  didChange :: nat
  didChangeWatchExpressions :: nat

definition fireDidChange :: "DebugViewModel \<Rightarrow> DebugViewModel" where
  "fireDidChange vm = vm\<lparr>didChange := Suc (didChange vm)\<rparr>"

definition fireDidChangeWatchExpressions :: "DebugViewModel \<Rightarrow> DebugViewModel" where
  "fireDidChangeWatchExpressions vm =
     vm\<lparr>didChangeWatchExpressions := Suc (didChangeWatchExpressions vm)\<rparr>"

subsection \<open>Session membership\<close>

definition push :: "session_ref \<Rightarrow> DebugViewModel \<Rightarrow> DebugViewModel" where
  "push s vm =
     (if Set_has s (sessions vm) then vm
      else fireDidChange (vm\<lparr>sessions := Set_add s (sessions vm)\<rparr>))"

definition delete :: "session_ref \<Rightarrow> DebugViewModel \<Rightarrow> bool \<times> DebugViewModel" where
  "delete s vm =
     (let (removed, rest) = Set_delete s (sessions vm);
          vm' = vm\<lparr>sessions := rest\<rparr>
      in if removed then (True, fireDidChange vm') else (False, vm'))"

definition session :: "DebugViewModel \<Rightarrow> session_ref option" where
  "session vm = (case sessions vm of [] \<Rightarrow> None | s # _ \<Rightarrow> Some s)"

definition id_getter :: "heap \<Rightarrow> DebugViewModel \<Rightarrow> string" where
  "id_getter h vm = or_string (map_option (\<lambda>s. session_id (h s)) (session vm)) ''-1''"

definition label :: "heap \<Rightarrow> DebugViewModel \<Rightarrow> string" where
  "label h vm =
     or_string (map_option (\<lambda>s. session_label (h s)) (session vm)) ''Unknown Session''"

definition has :: "session_ref option \<Rightarrow> DebugViewModel \<Rightarrow> bool" where
  "has s vm = (case s of None \<Rightarrow> False | Some x \<Rightarrow> Set_has x (sessions vm))"

text \<open>
  The handler that \<^verbatim>\<open>init\<close> subscribes to \<^verbatim>\<open>manager.onDidChangeActiveDebugSession\<close>.
\<close>

definition onDidChangeActiveDebugSession ::
  "session_ref option \<Rightarrow> session_ref option \<Rightarrow> DebugViewModel \<Rightarrow> DebugViewModel" where
  "onDidChangeActiveDebugSession previous current vm =
     (if has previous vm \<and> \<not> has current vm then fireDidChange vm else vm)"

subsection \<open>Current session and what is derived from it\<close>

definition currentSession :: "DebugSessionManager \<Rightarrow> DebugViewModel \<Rightarrow> session_ref option" where
  "currentSession mgr vm =
     or_else (if has (mgr_currentSession mgr) vm then mgr_currentSession mgr else None)
       (session vm)"

definition state ::
  "(DebugState \<Rightarrow> bool) \<Rightarrow> DebugSessionManager \<Rightarrow> heap \<Rightarrow> DebugViewModel \<Rightarrow> DebugState" where
  "state truthy mgr h vm =
     (case map_option (\<lambda>s. session_state (h s)) (currentSession mgr vm) of
        None \<Rightarrow> Inactive
      | Some st \<Rightarrow> if truthy st then st else Inactive)"

text \<open>
  \<^verbatim>\<open>currentSession && currentSession.currentThread\<close>: the left operand is the result
  when it is \<^verbatim>\<open>undefined\<close>; otherwise the property is read from it. The getter
  \<^verbatim>\<open>currentFrame\<close> reads \<^verbatim>\<open>this.currentThread\<close> first, and an exception raised there
  would leave it too.
\<close>

definition currentThread ::
  "DebugSessionManager \<Rightarrow> heap \<Rightarrow> DebugViewModel \<Rightarrow> error + DebugThread option" where
  "currentThread mgr h vm =
     (let cs = currentSession mgr vm
      in if cs = None then Inr None else property cs (\<lambda>s. session_currentThread (h s)))"

definition currentFrame ::
  "DebugSessionManager \<Rightarrow> heap \<Rightarrow> DebugViewModel \<Rightarrow> error + DebugStackFrame option" where
  "currentFrame mgr h vm =
     (case currentThread mgr h vm of
        Inl e \<Rightarrow> Inl e
      | Inr ct \<Rightarrow> if ct = None then Inr None else property ct thread_currentFrame)"

subsection \<open>Sequences of membership calls\<close>

datatype call = Push session_ref | Delete session_ref

text \<open>One call: what it returns (\<^verbatim>\<open>push\<close> returns nothing) and the state it leaves.\<close>

fun perform :: "call \<Rightarrow> DebugViewModel \<Rightarrow> bool option \<times> DebugViewModel" where
  "perform (Push s) vm = (None, push s vm)"
| "perform (Delete s) vm = (case delete s vm of (r, vm') \<Rightarrow> (Some r, vm'))"

text \<open>
  A sequence of calls: for each call, what it returned and how many times "changed" fired
  while it ran, which is the counter after the call less the counter before it (the
  counter never goes down).
\<close>

fun perform_all :: "call list \<Rightarrow> DebugViewModel \<Rightarrow> (bool option \<times> nat) list \<times> DebugViewModel" where
  "perform_all [] vm = ([], vm)"
| "perform_all (c # cs) vm =
     (let (r, vm') = perform c vm;
          (rs, vm'') = perform_all cs vm'
      in ((r, didChange vm' - didChange vm) # rs, vm''))"

text \<open>
  What the specification expects, stated on the set of members: a call alters membership
  when it adds a session that is absent or removes one that is present.
\<close>

fun alters :: "session_ref set \<Rightarrow> call \<Rightarrow> bool" where
  "alters S (Push s) = (s \<notin> S)"
| "alters S (Delete s) = (s \<in> S)"

fun members_after :: "session_ref set \<Rightarrow> call \<Rightarrow> session_ref set" where
  "members_after S (Push s) = insert s S"
| "members_after S (Delete s) = S - {s}"

fun returns :: "session_ref set \<Rightarrow> call \<Rightarrow> bool option" where
  "returns S (Push s) = None"
| "returns S (Delete s) = Some (s \<in> S)"

fun expected :: "session_ref set \<Rightarrow> call list \<Rightarrow> (bool option \<times> nat) list" where
  "expected S [] = []"
| "expected S (c # cs) =
     (returns S c, if alters S c then 1 else 0) # expected (members_after S c) cs"

subsection \<open>Starting and restarting\<close>

text \<open>
  \<^verbatim>\<open>start\<close> and \<^verbatim>\<open>restart\<close> read the getter \<^verbatim>\<open>session\<close>, call the manager and
  suspend; the code after the \<^verbatim>\<open>await\<close> runs on the state the view model has when the
  promise settles. That code is \<open>start_resume\<close> and \<open>restart_resume\<close>, for any state
  at that moment; \<open>start\<close> and \<open>restart\<close> are the whole method when nothing else
  runs in between. They return what the manager was asked (nothing when the method
  returned before the call) and the state they leave.
\<close>

definition start_resume ::
  "session_ref \<Rightarrow> session_ref option \<Rightarrow> DebugViewModel \<Rightarrow> DebugViewModel" where
  "start_resume s newSession vm =
     (case newSession of
        None \<Rightarrow> vm
      | Some n \<Rightarrow>
          fireDidChange (vm\<lparr>sessions := Set_add n (snd (Set_delete s (sessions vm)))\<rparr>))"

definition start ::
  "DebugSessionManager \<Rightarrow> heap \<Rightarrow> DebugViewModel \<Rightarrow> DebugSessionOptions option \<times> DebugViewModel" where
  "start mgr h vm =
     (case session vm of
        None \<Rightarrow> (None, vm)
      | Some s \<Rightarrow>
          (Some (session_options (h s)),
           start_resume s (mgr_start mgr (session_options (h s))) vm))"

definition restart_resume ::
  "session_ref \<Rightarrow> session_ref \<Rightarrow> DebugViewModel \<Rightarrow> DebugViewModel" where
  "restart_resume s newSession vm =
     fireDidChange
       (if newSession \<noteq> s
        then vm\<lparr>sessions := Set_add newSession (snd (Set_delete s (sessions vm)))\<rparr>
        else vm)"

definition restart ::
  "DebugSessionManager \<Rightarrow> DebugViewModel \<Rightarrow> session_ref option \<times> DebugViewModel" where
  "restart mgr vm =
     (case session vm of
        None \<Rightarrow> (None, vm)
      | Some s \<Rightarrow> (Some s, restart_resume s (mgr_restart mgr s) vm))"

subsection \<open>Watch expressions\<close>

text \<open>
  \<^verbatim>\<open>addWatchExpression\<close> constructs the expression with the text it is given and with
  the callback \<^verbatim>\<open>onDidChange: () => this.fireDidChangeWatchExpressions()\<close>, and awaits
  \<^verbatim>\<open>watchExpression.open()\<close>.

  Modelled from the spec: \<^verbatim>\<open>DebugWatchExpression.open\<close> is declared in
  \<^verbatim>\<open>./debug-watch-expression\<close>, which is not among the sources. It is the interactive
  edit step of the expression. All that the expression holds of the view model is the
  callback, so the edit step is represented by the function \<open>edit\<close> from the expression
  as constructed to the expression as the edit leaves it and the number of times the edit
  called \<^verbatim>\<open>onDidChange\<close> meanwhile.

  \<open>addWatchExpression_resume\<close> is the code after the \<^verbatim>\<open>await\<close>, on the state at that
  moment.
\<close>

definition addWatchExpression_resume ::
  "DebugWatchExpression \<Rightarrow> DebugViewModel \<Rightarrow> DebugWatchExpression option \<times> DebugViewModel" where
  "addWatchExpression_resume watchExpression vm =
     (if expression watchExpression = []
      then (None, vm)
      else (Some watchExpression,
            fireDidChangeWatchExpressions
              (vm\<lparr>watchExpressions := watchExpressions vm @ [watchExpression]\<rparr>)))"

definition addWatchExpression ::
  "(DebugWatchExpression \<Rightarrow> DebugWatchExpression \<times> nat) \<Rightarrow> string \<Rightarrow> DebugViewModel \<Rightarrow>
     DebugWatchExpression option \<times> DebugViewModel" where
  "addWatchExpression edit text vm =
     (let onDidChange = fireDidChangeWatchExpressions;
          (watchExpression, calls) = edit \<lparr>expression = text\<rparr>
      in addWatchExpression_resume watchExpression ((onDidChange ^^ calls) vm))"

subsection \<open>Refreshing the watch expressions\<close>
















subsection \<open>Example objects\<close>

text \<open>
  Two session objects, a heap in which reference 1 points to the first and every other
  reference to the second, managers with a given active session, and a view model with a
  given set of sessions in which no emitter has fired.
\<close>

definition session_A :: DebugSession where
  "session_A =
     \<lparr>session_id = ''A'', session_label = ''Session A'', session_state = Other 1,
      session_currentThread =
        Some \<lparr>thread_id = 1, thread_currentFrame = Some (DebugStackFrame 7)\<rparr>,
      session_options = ''launch A''\<rparr>"

definition session_B :: DebugSession where
  "session_B =
     \<lparr>session_id = [], session_label = [], session_state = Inactive,
      session_currentThread = None, session_options = ''launch B''\<rparr>"

definition example_heap :: heap where
  "example_heap = (\<lambda>r. if r = 1 then session_A else session_B)"

definition manager_with ::
  "session_ref option \<Rightarrow> session_ref option \<Rightarrow> session_ref \<Rightarrow> DebugSessionManager" where
  "manager_with active started restarted =
     \<lparr>mgr_currentSession = active, mgr_start = (\<lambda>opts. started),
      mgr_restart = (\<lambda>s. restarted)\<rparr>"

definition view_of :: "session_ref list \<Rightarrow> DebugViewModel" where
  "view_of ss =
     \<lparr>sessions = ss, watchExpressions = [], didChange = 0, didChangeWatchExpressions = 0\<rparr>"

text \<open>Two ways an enum can number its members: all truthy, or \<open>Inactive\<close> falsy.\<close>

definition all_truthy :: "DebugState \<Rightarrow> bool" where
  "all_truthy st = True"

definition Inactive_falsy :: "DebugState \<Rightarrow> bool" where
  "Inactive_falsy st = (st \<noteq> Inactive)"

text \<open>
  An edit step that enters a text and never calls the callback, and one that enters a text
  and calls the callback once.
\<close>

definition edit_to :: "string \<Rightarrow> DebugWatchExpression \<Rightarrow> DebugWatchExpression \<times> nat" where
  "edit_to t w = (w\<lparr>expression := t\<rparr>, 0)"

definition edit_notifying :: "string \<Rightarrow> DebugWatchExpression \<Rightarrow> DebugWatchExpression \<times> nat" where
  "edit_notifying t w = (w\<lparr>expression := t\<rparr>, 1)"


subsection \<open>Invariant of the refresh chain\<close>





section \<open>Properties\<close>

subsection \<open>The set of sessions\<close>

lemma Set_add_distinct: "distinct xs \<Longrightarrow> distinct (Set_add x xs)"
  by (simp add: Set_add_def)

lemma Set_delete_distinct: "distinct xs \<Longrightarrow> distinct (snd (Set_delete x xs))"
  by (simp add: Set_delete_def distinct_removeAll)

lemma set_Set_add: "set (Set_add x xs) = insert x (set xs)"
  by (auto simp: Set_add_def)

lemma set_Set_delete: "set (snd (Set_delete x xs)) = set xs - {x}"
  by (simp add: Set_delete_def)

lemma Set_add_keeps_first: "xs \<noteq> [] \<Longrightarrow> hd (Set_add x xs) = hd xs"
  by (simp add: Set_add_def)

lemma perform_members:
  "set (sessions (snd (perform c vm))) = members_after (set (sessions vm)) c"
  by (cases c)
    (auto simp: push_def delete_def fireDidChange_def Set_has_def Set_add_def Set_delete_def
      Let_def split: prod.splits)

lemma perform_returns: "fst (perform c vm) = returns (set (sessions vm)) c"
  by (cases c) (auto simp: delete_def Set_delete_def Let_def split: prod.splits)

lemma perform_didChange:
  "didChange (snd (perform c vm)) = didChange vm + (if alters (set (sessions vm)) c then 1 else 0)"
  by (cases c)
    (auto simp: push_def delete_def fireDidChange_def Set_has_def Set_delete_def
      Let_def split: prod.splits)

lemma perform_distinct: "distinct (sessions vm) \<Longrightarrow> distinct (sessions (snd (perform c vm)))"
  by (cases c)
    (auto simp: push_def delete_def fireDidChange_def Set_has_def Set_add_def Set_delete_def
      Let_def distinct_removeAll split: prod.splits)

lemma perform_all_expected:
  "fst (perform_all cs vm) = expected (set (sessions vm)) cs"
proof (induction cs arbitrary: vm)
  case Nil
  show ?case by simp
next
  case (Cons c cs)
  obtain r vm' where p: "perform c vm = (r, vm')" by (cases "perform c vm")
  obtain rs vm'' where q: "perform_all cs vm' = (rs, vm'')" by (cases "perform_all cs vm'")
  have r: "r = returns (set (sessions vm)) c"
    using perform_returns [of c vm] p by simp
  have m: "set (sessions vm') = members_after (set (sessions vm)) c"
    using perform_members [of c vm] p by simp
  have d: "didChange vm' - didChange vm = (if alters (set (sessions vm)) c then 1 else 0)"
    using perform_didChange [of c vm] p by simp
  have "rs = expected (set (sessions vm')) cs"
    using Cons.IH [of vm'] q by simp
  then show ?case using p q r m d by simp
qed

lemma perform_all_didChange:
  "didChange (snd (perform_all cs vm)) = didChange vm + sum_list (map snd (fst (perform_all cs vm)))"
proof (induction cs arbitrary: vm)
  case Nil
  show ?case by simp
next
  case (Cons c cs)
  obtain r vm' where p: "perform c vm = (r, vm')" by (cases "perform c vm")
  obtain rs vm'' where q: "perform_all cs vm' = (rs, vm'')" by (cases "perform_all cs vm'")
  have d: "didChange vm \<le> didChange vm'"
    using perform_didChange [of c vm] p by simp
  have "didChange vm'' = didChange vm' + sum_list (map snd rs)"
    using Cons.IH [of vm'] q by simp
  then show ?case using p q d by simp
qed

text \<open>
  C2. Over every sequence of \<^verbatim>\<open>push\<close> and \<^verbatim>\<open>delete\<close> calls, from every state: each
  call fires "changed" once when it alters the membership of the set and not at all when
  it adds a session already present or removes an absent one; \<^verbatim>\<open>delete\<close> returns
  whether the session was a member; and the total number of "changed" signals is the
  number of calls that altered membership.
\<close>

theorem push_delete_changed:
  "fst (perform_all cs vm) = expected (set (sessions vm)) cs \<and>
   didChange (snd (perform_all cs vm)) =
     didChange vm + sum_list (map snd (expected (set (sessions vm)) cs))"
  using perform_all_expected [of cs vm] perform_all_didChange [of cs vm] by simp

text \<open>
  Two sessions are added, one of them twice, an absent one is removed and then a present
  one: three of the five calls fire.
\<close>

theorem push_delete_changed_witness:
  "fst (perform_all [Push 1, Push 1, Push 2, Delete 3, Delete 1] (view_of [])) =
     [(None, 1), (None, 0), (None, 1), (Some False, 0), (Some True, 1)] \<and>
   didChange (snd (perform_all [Push 1, Push 1, Push 2, Delete 3, Delete 1] (view_of []))) = 3"
  using push_delete_changed [of "[Push 1, Push 1, Push 2, Delete 3, Delete 1]" "view_of []"]
  by (simp add: view_of_def)

subsection \<open>The current session\<close>

lemma session_None: "session vm = None \<longleftrightarrow> sessions vm = []"
  by (simp add: session_def split: list.splits)

lemma session_hd: "sessions vm \<noteq> [] \<Longrightarrow> session vm = Some (hd (sessions vm))"
  by (cases "sessions vm") (simp_all add: session_def)

lemma currentSession_member:
  "mgr_currentSession mgr = Some s \<Longrightarrow> s \<in> set (sessions vm) \<Longrightarrow> currentSession mgr vm = Some s"
  by (simp add: currentSession_def has_def Set_has_def or_else_def)

lemma currentSession_fallback:
  "\<not> has (mgr_currentSession mgr) vm \<Longrightarrow> currentSession mgr vm = session vm"
  by (simp add: currentSession_def or_else_def)

lemma currentSession_None: "currentSession mgr vm = None \<longleftrightarrow> sessions vm = []"
  by (auto simp: currentSession_def has_def Set_has_def or_else_def session_def
      split: option.splits list.splits)

lemma push_keeps_session: "sessions vm \<noteq> [] \<Longrightarrow> session (push s vm) = session vm"
  by (cases "sessions vm") (simp_all add: push_def session_def fireDidChange_def Set_add_def)

text \<open>
  C3. In every state, \<^verbatim>\<open>currentSession\<close> is the manager's active session when that
  session is a member of the set of this view; otherwise it is what \<^verbatim>\<open>session\<close>
  returns, which is the first member in insertion order; and it is absent exactly when the
  set is empty.
\<close>

theorem currentSession_resolution:
  "(\<forall>s. mgr_currentSession mgr = Some s \<and> s \<in> set (sessions vm) \<longrightarrow>
        currentSession mgr vm = Some s) \<and>
   (\<not> (\<exists>s. mgr_currentSession mgr = Some s \<and> s \<in> set (sessions vm)) \<longrightarrow>
        currentSession mgr vm = session vm) \<and>
   (sessions vm \<noteq> [] \<longrightarrow> session vm = Some (hd (sessions vm))) \<and>
   (currentSession mgr vm = None \<longleftrightarrow> sessions vm = [])"
proof -
  have a: "\<forall>s. mgr_currentSession mgr = Some s \<and> s \<in> set (sessions vm) \<longrightarrow>
        currentSession mgr vm = Some s"
    using currentSession_member by blast
  have b: "\<not> (\<exists>s. mgr_currentSession mgr = Some s \<and> s \<in> set (sessions vm)) \<longrightarrow>
        currentSession mgr vm = session vm"
  proof
    assume n: "\<not> (\<exists>s. mgr_currentSession mgr = Some s \<and> s \<in> set (sessions vm))"
    then have "\<not> has (mgr_currentSession mgr) vm"
      by (cases "mgr_currentSession mgr") (simp_all add: has_def Set_has_def)
    then show "currentSession mgr vm = session vm" by (rule currentSession_fallback)
  qed
  show ?thesis using a b session_hd [of vm] currentSession_None [of mgr vm] by blast
qed

text \<open>
  The active session is a member; it is not a member; there is none; the set is empty.
\<close>

theorem currentSession_resolution_witness:
  "currentSession (manager_with (Some 2) None 0) (view_of [1, 2]) = Some 2 \<and>
   currentSession (manager_with (Some 3) None 0) (view_of [1, 2]) = Some 1 \<and>
   currentSession (manager_with None None 0) (view_of [1, 2]) = Some 1 \<and>
   currentSession (manager_with (Some 3) None 0) (view_of []) = None"
proof -
  have a: "currentSession (manager_with (Some 2) None 0) (view_of [1, 2]) = Some 2"
    using currentSession_resolution [of "manager_with (Some 2) None 0" "view_of [1, 2]"]
    by (simp add: manager_with_def view_of_def)
  have b: "currentSession (manager_with (Some 3) None 0) (view_of [1, 2]) = Some 1"
    using currentSession_resolution [of "manager_with (Some 3) None 0" "view_of [1, 2]"]
    by (simp add: manager_with_def view_of_def)
  have c: "currentSession (manager_with None None 0) (view_of [1, 2]) = Some 1"
    using currentSession_resolution [of "manager_with None None 0" "view_of [1, 2]"]
    by (simp add: manager_with_def view_of_def)
  have d: "currentSession (manager_with (Some 3) None 0) (view_of []) = None"
    using currentSession_resolution [of "manager_with (Some 3) None 0" "view_of []"]
    by (auto simp: view_of_def)
  show ?thesis using a b c d by simp
qed

text \<open>
  C1. The set is \<open>{A}\<close> and the manager's active session changes from \<open>B\<close>, which is
  not a member, to \<open>A\<close>: \<^verbatim>\<open>currentSession\<close> is \<open>A\<close> before and after, and the handler
  of the change leaves the view model as it is, so "changed" does not fire. The handler
  fires "changed" once when the previous session is a member and the current one is not,
  and never otherwise.
\<close>

theorem active_session_changed:
  "(sessions vm = [A] \<and> B \<noteq> A \<longrightarrow>
      currentSession (mgr\<lparr>mgr_currentSession := Some B\<rparr>) vm = Some A \<and>
      currentSession (mgr\<lparr>mgr_currentSession := Some A\<rparr>) vm = Some A \<and>
      onDidChangeActiveDebugSession (Some B) (Some A) vm = vm) \<and>
   (has previous vm \<and> \<not> has current vm \<longrightarrow>
      onDidChangeActiveDebugSession previous current vm = fireDidChange vm \<and>
      didChange (onDidChangeActiveDebugSession previous current vm) = didChange vm + 1) \<and>
   (\<not> (has previous vm \<and> \<not> has current vm) \<longrightarrow>
      onDidChangeActiveDebugSession previous current vm = vm)"
  by (auto simp: currentSession_def has_def Set_has_def or_else_def session_def
      onDidChangeActiveDebugSession_def fireDidChange_def)

text \<open>
  The set is \<open>{1}\<close>: the change from 2 to 1 fires nothing, the change from 1 to 2 fires
  once.
\<close>

theorem active_session_changed_witness:
  "currentSession (manager_with (Some 2) None 0) (view_of [1]) = Some 1 \<and>
   currentSession (manager_with (Some 1) None 0) (view_of [1]) = Some 1 \<and>
   onDidChangeActiveDebugSession (Some 2) (Some 1) (view_of [1]) = view_of [1] \<and>
   didChange (onDidChangeActiveDebugSession (Some 1) (Some 2) (view_of [1])) = 1"
proof -
  have m2: "manager_with (Some 2) None 0 = (manager_with None None 0)\<lparr>mgr_currentSession := Some 2\<rparr>"
    and m1: "manager_with (Some 1) None 0 = (manager_with None None 0)\<lparr>mgr_currentSession := Some 1\<rparr>"
    by (simp_all add: manager_with_def)
  have h1: "has (Some 1) (view_of [1])" and h2: "\<not> has (Some 2) (view_of [1])"
    by (simp_all add: has_def Set_has_def view_of_def)
  have a: "currentSession (manager_with (Some 2) None 0) (view_of [1]) = Some 1 \<and>
      currentSession (manager_with (Some 1) None 0) (view_of [1]) = Some 1 \<and>
      onDidChangeActiveDebugSession (Some 2) (Some 1) (view_of [1]) = view_of [1]"
    unfolding m1 m2
    using active_session_changed [of "view_of [1]" 1 2 "manager_with None None 0" "Some 2" "Some 1"]
    by (simp add: view_of_def)
  have b: "didChange (onDidChangeActiveDebugSession (Some 1) (Some 2) (view_of [1])) = 1"
    using active_session_changed [of "view_of [1]" 1 2 "manager_with None None 0" "Some 1" "Some 2"]
      h1 h2
    by (simp add: view_of_def fireDidChange_def)
  show ?thesis using a b by simp
qed

text \<open>
  The scenario itself: the set is \<open>{1}\<close>, the active session changes from 2 to 1, and the
  number of "changed" signals is the same after the handler as before it.
\<close>

theorem active_session_changed_counterexample:
  "currentSession (manager_with (Some 2) None 0) (view_of [1]) = Some 1 \<and>
   currentSession (manager_with (Some 1) None 0) (view_of [1]) = Some 1 \<and>
   didChange (onDidChangeActiveDebugSession (Some 2) (Some 1) (view_of [1])) =
     didChange (view_of [1]) \<and>
   didChange (onDidChangeActiveDebugSession (Some 2) (Some 1) (view_of [1])) \<noteq>
     didChange (view_of [1]) + 1"
  by (simp add: currentSession_def has_def Set_has_def or_else_def session_def manager_with_def
      view_of_def onDidChangeActiveDebugSession_def)

subsection \<open>What is derived from the current session\<close>

text \<open>
  C6. \<^verbatim>\<open>state\<close> is \<open>Inactive\<close> when there is no current session. When there is one,
  \<^verbatim>\<open>state\<close> is \<open>Inactive\<close> exactly when the state of that session is \<open>Inactive\<close> or
  falsy, and is the state of the session when that is truthy.
\<close>

theorem state_Inactive_iff:
  "(currentSession mgr vm = None \<longrightarrow> state truthy mgr h vm = Inactive) \<and>
   (\<forall>s. currentSession mgr vm = Some s \<longrightarrow>
      (state truthy mgr h vm = Inactive \<longleftrightarrow>
         session_state (h s) = Inactive \<or> \<not> truthy (session_state (h s)))) \<and>
   (\<forall>s. currentSession mgr vm = Some s \<and> truthy (session_state (h s)) \<longrightarrow>
      state truthy mgr h vm = session_state (h s))"
  by (auto simp: state_def)

text \<open>
  No session; a session in another state; a session whose own state is \<open>Inactive\<close>, with
  either numbering of the enum.
\<close>

theorem state_Inactive_iff_witness:
  "state all_truthy (manager_with None None 0) example_heap (view_of []) = Inactive \<and>
   state all_truthy (manager_with None None 0) example_heap (view_of [1]) = Other 1 \<and>
   state all_truthy (manager_with None None 0) example_heap (view_of [2]) = Inactive \<and>
   state Inactive_falsy (manager_with None None 0) example_heap (view_of [2]) = Inactive"
proof -
  have cs0: "currentSession (manager_with None None 0) (view_of []) = None"
    by (simp add: currentSession_def has_def or_else_def session_def manager_with_def view_of_def)
  have cs1: "currentSession (manager_with None None 0) (view_of [1]) = Some 1"
    by (simp add: currentSession_def has_def or_else_def session_def manager_with_def view_of_def)
  have cs2: "currentSession (manager_with None None 0) (view_of [2]) = Some 2"
    by (simp add: currentSession_def has_def or_else_def session_def manager_with_def view_of_def)
  have a: "state all_truthy (manager_with None None 0) example_heap (view_of []) = Inactive"
    using state_Inactive_iff [of "manager_with None None 0" "view_of []" all_truthy example_heap] cs0
    by simp
  have b: "state all_truthy (manager_with None None 0) example_heap (view_of [1]) = Other 1"
    using state_Inactive_iff [of "manager_with None None 0" "view_of [1]" all_truthy example_heap] cs1
    by (simp add: example_heap_def session_A_def all_truthy_def)
  have c: "state all_truthy (manager_with None None 0) example_heap (view_of [2]) = Inactive"
    using state_Inactive_iff [of "manager_with None None 0" "view_of [2]" all_truthy example_heap] cs2
    by (simp add: example_heap_def session_B_def all_truthy_def)
  have d: "state Inactive_falsy (manager_with None None 0) example_heap (view_of [2]) = Inactive"
    using state_Inactive_iff [of "manager_with None None 0" "view_of [2]" Inactive_falsy example_heap] cs2
    by (simp add: example_heap_def session_B_def Inactive_falsy_def)
  show ?thesis using a b c d by simp
qed

text \<open>
  The view holds one session, whose own state is \<open>Inactive\<close>: the current session is
  present and \<^verbatim>\<open>state\<close> is \<open>Inactive\<close>, with either numbering of the enum.
\<close>

theorem state_Inactive_counterexample:
  "currentSession (manager_with None None 0) (view_of [2]) = Some 2 \<and>
   state all_truthy (manager_with None None 0) example_heap (view_of [2]) = Inactive \<and>
   state Inactive_falsy (manager_with None None 0) example_heap (view_of [2]) = Inactive"
  by (simp add: state_def currentSession_def has_def or_else_def session_def manager_with_def
      view_of_def example_heap_def session_B_def all_truthy_def Inactive_falsy_def)

text \<open>
  C7. \<^verbatim>\<open>currentThread\<close> and \<^verbatim>\<open>currentFrame\<close> return in every state and raise nothing.
  Without a current session both are absent; with one, \<^verbatim>\<open>currentThread\<close> is the thread
  that session has selected, so it is absent when the session has selected none, and then
  \<^verbatim>\<open>currentFrame\<close> is absent too; with a thread, \<^verbatim>\<open>currentFrame\<close> is the frame that thread
  has selected, so it is absent when the thread has selected none.
\<close>

theorem currentThread_currentFrame_projections:
  "(\<exists>t. currentThread mgr h vm = Inr t) \<and>
   (\<exists>f. currentFrame mgr h vm = Inr f) \<and>
   (currentSession mgr vm = None \<longrightarrow>
      currentThread mgr h vm = Inr None \<and> currentFrame mgr h vm = Inr None) \<and>
   (\<forall>s. currentSession mgr vm = Some s \<longrightarrow>
      currentThread mgr h vm = Inr (session_currentThread (h s))) \<and>
   (\<forall>s. currentSession mgr vm = Some s \<and> session_currentThread (h s) = None \<longrightarrow>
      currentFrame mgr h vm = Inr None) \<and>
   (\<forall>s t. currentSession mgr vm = Some s \<and> session_currentThread (h s) = Some t \<longrightarrow>
      currentFrame mgr h vm = Inr (thread_currentFrame t))"
  by (cases "currentSession mgr vm")
    (auto simp: currentThread_def currentFrame_def property_def Let_def split: option.splits)

text \<open>
  An empty view; a view whose session has a thread with a frame; one whose session has no
  thread.
\<close>

theorem currentThread_currentFrame_projections_witness:
  "currentThread (manager_with None None 0) example_heap (view_of []) = Inr None \<and>
   currentFrame (manager_with None None 0) example_heap (view_of []) = Inr None \<and>
   currentThread (manager_with None None 0) example_heap (view_of [1]) =
     Inr (Some \<lparr>thread_id = 1, thread_currentFrame = Some (DebugStackFrame 7)\<rparr>) \<and>
   currentFrame (manager_with None None 0) example_heap (view_of [1]) =
     Inr (Some (DebugStackFrame 7)) \<and>
   currentThread (manager_with None None 0) example_heap (view_of [2]) = Inr None \<and>
   currentFrame (manager_with None None 0) example_heap (view_of [2]) = Inr None"
proof -
  have cs0: "currentSession (manager_with None None 0) (view_of []) = None"
    by (simp add: currentSession_def has_def or_else_def session_def manager_with_def view_of_def)
  have cs1: "currentSession (manager_with None None 0) (view_of [1]) = Some 1"
    by (simp add: currentSession_def has_def or_else_def session_def manager_with_def view_of_def)
  have cs2: "currentSession (manager_with None None 0) (view_of [2]) = Some 2"
    by (simp add: currentSession_def has_def or_else_def session_def manager_with_def view_of_def)
  have a: "currentThread (manager_with None None 0) example_heap (view_of []) = Inr None \<and>
      currentFrame (manager_with None None 0) example_heap (view_of []) = Inr None"
    using currentThread_currentFrame_projections
      [of "manager_with None None 0" example_heap "view_of []"] cs0
    by simp
  have b: "currentThread (manager_with None None 0) example_heap (view_of [1]) =
        Inr (Some \<lparr>thread_id = 1, thread_currentFrame = Some (DebugStackFrame 7)\<rparr>) \<and>
      currentFrame (manager_with None None 0) example_heap (view_of [1]) =
        Inr (Some (DebugStackFrame 7))"
    using currentThread_currentFrame_projections
      [of "manager_with None None 0" example_heap "view_of [1]"] cs1
    by (simp add: example_heap_def session_A_def)
  have c: "currentThread (manager_with None None 0) example_heap (view_of [2]) = Inr None \<and>
      currentFrame (manager_with None None 0) example_heap (view_of [2]) = Inr None"
    using currentThread_currentFrame_projections
      [of "manager_with None None 0" example_heap "view_of [2]"] cs2
    by (simp add: example_heap_def session_B_def)
  show ?thesis using a b c by simp
qed

text \<open>
  C10. When the set is empty, \<^verbatim>\<open>id\<close> is the string \<open>-1\<close> and \<^verbatim>\<open>label\<close> is
  \<open>Unknown Session\<close>; so is \<^verbatim>\<open>id\<close> when the id of the first session is empty, and
  \<^verbatim>\<open>label\<close> when its label is empty. Otherwise they are the id and the label of the
  first session.
\<close>

theorem id_label_defaults:
  "(sessions vm = [] \<longrightarrow> id_getter h vm = ''-1'' \<and> label h vm = ''Unknown Session'') \<and>
   (\<forall>s. session vm = Some s \<and> session_id (h s) = [] \<longrightarrow> id_getter h vm = ''-1'') \<and>
   (\<forall>s. session vm = Some s \<and> session_label (h s) = [] \<longrightarrow> label h vm = ''Unknown Session'') \<and>
   (\<forall>s. session vm = Some s \<and> session_id (h s) \<noteq> [] \<longrightarrow> id_getter h vm = session_id (h s)) \<and>
   (\<forall>s. session vm = Some s \<and> session_label (h s) \<noteq> [] \<longrightarrow> label h vm = session_label (h s))"
  by (auto simp: id_getter_def label_def or_string_def session_def split: list.splits)

text \<open>An empty view; a session with an id and a label; a session with neither.\<close>

theorem id_label_defaults_witness:
  "id_getter example_heap (view_of []) = ''-1'' \<and>
   label example_heap (view_of []) = ''Unknown Session'' \<and>
   id_getter example_heap (view_of [1, 2]) = ''A'' \<and>
   label example_heap (view_of [1, 2]) = ''Session A'' \<and>
   id_getter example_heap (view_of [2, 1]) = ''-1'' \<and>
   label example_heap (view_of [2, 1]) = ''Unknown Session''"
proof -
  have s1: "session (view_of [1, 2]) = Some 1" and s2: "session (view_of [2, 1]) = Some 2"
    by (simp_all add: session_def view_of_def)
  have a: "id_getter example_heap (view_of []) = ''-1'' \<and>
      label example_heap (view_of []) = ''Unknown Session''"
    using id_label_defaults [of "view_of []" example_heap] by (simp add: view_of_def)
  have b: "id_getter example_heap (view_of [1, 2]) = ''A'' \<and>
      label example_heap (view_of [1, 2]) = ''Session A''"
    using id_label_defaults [of "view_of [1, 2]" example_heap] s1
    by (simp add: example_heap_def session_A_def)
  have c: "id_getter example_heap (view_of [2, 1]) = ''-1'' \<and>
      label example_heap (view_of [2, 1]) = ''Unknown Session''"
    using id_label_defaults [of "view_of [2, 1]" example_heap] s2
    by (simp add: example_heap_def session_B_def)
  show ?thesis using a b c by simp
qed

subsection \<open>Starting and restarting\<close>

lemma start_resume_Some:
  "set (sessions (start_resume s (Some n) vm)) = insert n (set (sessions vm) - {s}) \<and>
   didChange (start_resume s (Some n) vm) = didChange vm + 1 \<and>
   watchExpressions (start_resume s (Some n) vm) = watchExpressions vm \<and>
   didChangeWatchExpressions (start_resume s (Some n) vm) = didChangeWatchExpressions vm"
  by (simp add: start_resume_def fireDidChange_def set_Set_add set_Set_delete)

lemma start_resume_None: "start_resume s None vm = vm"
  by (simp add: start_resume_def)

lemma restart_resume_same: "restart_resume s s vm = fireDidChange vm"
  by (simp add: restart_resume_def)

lemma restart_resume_other:
  "n \<noteq> s \<Longrightarrow> set (sessions (restart_resume s n vm)) = insert n (set (sessions vm) - {s})"
  by (simp add: restart_resume_def fireDidChange_def set_Set_add set_Set_delete)

lemma restart_resume_didChange: "didChange (restart_resume s n vm) = didChange vm + 1"
  by (simp add: restart_resume_def fireDidChange_def)

text \<open>
  C4. \<^verbatim>\<open>start\<close> does nothing when there is no current session. Otherwise it asks the
  manager to start a session with the launch options of the session that the getter
  \<^verbatim>\<open>session\<close> returns, the first member of the set, whichever session is current. When
  the manager returns a session, that first member is removed, the new session is a member
  and "changed" fires once; when the manager returns nothing, the view model is unchanged.
\<close>

theorem start_swaps_session:
  "(currentSession mgr vm = None \<longrightarrow> start mgr h vm = (None, vm)) \<and>
   (\<forall>s. session vm = Some s \<longrightarrow> fst (start mgr h vm) = Some (session_options (h s))) \<and>
   (\<forall>s n. session vm = Some s \<and> mgr_start mgr (session_options (h s)) = Some n \<longrightarrow>
      set (sessions (snd (start mgr h vm))) = insert n (set (sessions vm) - {s}) \<and>
      didChange (snd (start mgr h vm)) = didChange vm + 1) \<and>
   (\<forall>s. session vm = Some s \<and> mgr_start mgr (session_options (h s)) = None \<longrightarrow>
      snd (start mgr h vm) = vm)"
proof -
  have a: "currentSession mgr vm = None \<longrightarrow> start mgr h vm = (None, vm)"
  proof
    assume "currentSession mgr vm = None"
    then have "session vm = None"
      using currentSession_None [of mgr vm] session_None [of vm] by simp
    then show "start mgr h vm = (None, vm)" by (simp add: start_def)
  qed
  have b: "\<forall>s. session vm = Some s \<longrightarrow> fst (start mgr h vm) = Some (session_options (h s))"
    by (simp add: start_def)
  have c: "\<forall>s n. session vm = Some s \<and> mgr_start mgr (session_options (h s)) = Some n \<longrightarrow>
      set (sessions (snd (start mgr h vm))) = insert n (set (sessions vm) - {s}) \<and>
      didChange (snd (start mgr h vm)) = didChange vm + 1"
    using start_resume_Some by (simp add: start_def)
  have d: "\<forall>s. session vm = Some s \<and> mgr_start mgr (session_options (h s)) = None \<longrightarrow>
      snd (start mgr h vm) = vm"
    by (simp add: start_def start_resume_None)
  show ?thesis using a b c d by blast
qed

text \<open>
  An empty view; a view of two sessions where the manager returns a third; the same view
  where it returns nothing.
\<close>

theorem start_swaps_session_witness:
  "start (manager_with None (Some 3) 0) example_heap (view_of []) = (None, view_of []) \<and>
   fst (start (manager_with (Some 2) (Some 3) 0) example_heap (view_of [1, 2])) = Some ''launch A'' \<and>
   set (sessions (snd (start (manager_with (Some 2) (Some 3) 0) example_heap (view_of [1, 2])))) = {2, 3} \<and>
   didChange (snd (start (manager_with (Some 2) (Some 3) 0) example_heap (view_of [1, 2]))) = 1 \<and>
   snd (start (manager_with (Some 2) None 0) example_heap (view_of [1, 2])) = view_of [1, 2]"
proof -
  have cs: "currentSession (manager_with None (Some 3) 0) (view_of []) = None"
    by (simp add: currentSession_def has_def or_else_def session_def manager_with_def view_of_def)
  have s: "session (view_of [1, 2]) = Some 1"
    by (simp add: session_def view_of_def)
  have o: "session_options (example_heap 1) = ''launch A''"
    by (simp add: example_heap_def session_A_def)
  have a: "start (manager_with None (Some 3) 0) example_heap (view_of []) = (None, view_of [])"
    using start_swaps_session [of "manager_with None (Some 3) 0" "view_of []" example_heap] cs
    by simp
  have m: "mgr_start (manager_with (Some 2) (Some 3) 0) ''launch A'' = Some 3"
    by (simp add: manager_with_def)
  have m': "mgr_start (manager_with (Some 2) None 0) ''launch A'' = None"
    by (simp add: manager_with_def)
  have b: "fst (start (manager_with (Some 2) (Some 3) 0) example_heap (view_of [1, 2])) = Some ''launch A'' \<and>
      set (sessions (snd (start (manager_with (Some 2) (Some 3) 0) example_heap (view_of [1, 2])))) = {2, 3} \<and>
      didChange (snd (start (manager_with (Some 2) (Some 3) 0) example_heap (view_of [1, 2]))) = 1"
    using start_swaps_session [of "manager_with (Some 2) (Some 3) 0" "view_of [1, 2]" example_heap] s o m
    by (auto simp: view_of_def)
  have c: "snd (start (manager_with (Some 2) None 0) example_heap (view_of [1, 2])) = view_of [1, 2]"
    using start_swaps_session [of "manager_with (Some 2) None 0" "view_of [1, 2]" example_heap] s o m'
    by simp
  show ?thesis using a b c by simp
qed

text \<open>
  The view holds sessions 1 and 2, and 2 is the manager's active session, hence the
  current session. \<^verbatim>\<open>start\<close> passes the launch options of session 1, not those of
  session 2, and it is session 1 that leaves the set.
\<close>

theorem start_counterexample:
  "currentSession (manager_with (Some 2) (Some 3) 0) (view_of [1, 2]) = Some 2 \<and>
   session_options (example_heap 2) = ''launch B'' \<and>
   fst (start (manager_with (Some 2) (Some 3) 0) example_heap (view_of [1, 2])) = Some ''launch A'' \<and>
   sessions (snd (start (manager_with (Some 2) (Some 3) 0) example_heap (view_of [1, 2]))) = [2, 3]"
  by (simp add: currentSession_def has_def Set_has_def or_else_def session_def manager_with_def
      view_of_def example_heap_def session_A_def session_B_def start_def start_resume_def
      Set_add_def Set_delete_def fireDidChange_def)

text \<open>
  C5. \<^verbatim>\<open>restart\<close> does nothing when there is no current session. Otherwise it asks the
  manager to restart the session that the getter \<^verbatim>\<open>session\<close> returns, the first member
  of the set, whichever session is current, and fires "changed" once. The set is unchanged
  when the manager returns that same session; when it returns another, the first member
  is removed and the returned session is a member.
\<close>

theorem restart_always_fires:
  "(currentSession mgr vm = None \<longrightarrow> restart mgr vm = (None, vm)) \<and>
   (\<forall>s. session vm = Some s \<longrightarrow>
      fst (restart mgr vm) = Some s \<and>
      didChange (snd (restart mgr vm)) = didChange vm + 1) \<and>
   (\<forall>s. session vm = Some s \<and> mgr_restart mgr s = s \<longrightarrow>
      sessions (snd (restart mgr vm)) = sessions vm) \<and>
   (\<forall>s. session vm = Some s \<and> mgr_restart mgr s \<noteq> s \<longrightarrow>
      set (sessions (snd (restart mgr vm))) = insert (mgr_restart mgr s) (set (sessions vm) - {s}))"
proof -
  have a: "currentSession mgr vm = None \<longrightarrow> restart mgr vm = (None, vm)"
  proof
    assume "currentSession mgr vm = None"
    then have "session vm = None"
      using currentSession_None [of mgr vm] session_None [of vm] by simp
    then show "restart mgr vm = (None, vm)" by (simp add: restart_def)
  qed
  have b: "\<forall>s. session vm = Some s \<longrightarrow>
      fst (restart mgr vm) = Some s \<and> didChange (snd (restart mgr vm)) = didChange vm + 1"
    by (simp add: restart_def restart_resume_didChange)
  have c: "\<forall>s. session vm = Some s \<and> mgr_restart mgr s = s \<longrightarrow>
      sessions (snd (restart mgr vm)) = sessions vm"
    by (simp add: restart_def restart_resume_same fireDidChange_def)
  have d: "\<forall>s. session vm = Some s \<and> mgr_restart mgr s \<noteq> s \<longrightarrow>
      set (sessions (snd (restart mgr vm))) = insert (mgr_restart mgr s) (set (sessions vm) - {s})"
    by (simp add: restart_def restart_resume_other)
  show ?thesis using a b c d by blast
qed

text \<open>
  An empty view; the manager returns the session it was given; the manager returns
  another session.
\<close>

theorem restart_always_fires_witness:
  "restart (manager_with None None 0) (view_of []) = (None, view_of []) \<and>
   fst (restart (manager_with None None 1) (view_of [1])) = Some 1 \<and>
   didChange (snd (restart (manager_with None None 1) (view_of [1]))) = 1 \<and>
   sessions (snd (restart (manager_with None None 1) (view_of [1]))) = [1] \<and>
   set (sessions (snd (restart (manager_with None None 3) (view_of [1, 2])))) = {2, 3}"
proof -
  have cs: "currentSession (manager_with None None 0) (view_of []) = None"
    by (simp add: currentSession_def has_def or_else_def session_def manager_with_def view_of_def)
  have s1: "session (view_of [1]) = Some 1" and s2: "session (view_of [1, 2]) = Some 1"
    by (simp_all add: session_def view_of_def)
  have a: "restart (manager_with None None 0) (view_of []) = (None, view_of [])"
    using restart_always_fires [of "manager_with None None 0" "view_of []"] cs by simp
  have b: "fst (restart (manager_with None None 1) (view_of [1])) = Some 1 \<and>
      didChange (snd (restart (manager_with None None 1) (view_of [1]))) = 1 \<and>
      sessions (snd (restart (manager_with None None 1) (view_of [1]))) = [1]"
    using restart_always_fires [of "manager_with None None 1" "view_of [1]"] s1
    by (auto simp: manager_with_def view_of_def)
  have c: "set (sessions (snd (restart (manager_with None None 3) (view_of [1, 2])))) = {2, 3}"
    using restart_always_fires [of "manager_with None None 3" "view_of [1, 2]"] s2
    by (auto simp: manager_with_def view_of_def)
  show ?thesis using a b c by simp
qed

text \<open>
  The view holds sessions 1 and 2, and 2 is the current session: the manager is asked to
  restart session 1, and session 1 is the one replaced.
\<close>

theorem restart_counterexample:
  "currentSession (manager_with (Some 2) None 3) (view_of [1, 2]) = Some 2 \<and>
   fst (restart (manager_with (Some 2) None 3) (view_of [1, 2])) = Some 1 \<and>
   sessions (snd (restart (manager_with (Some 2) None 3) (view_of [1, 2]))) = [2, 3]"
  by (simp add: currentSession_def has_def Set_has_def or_else_def session_def manager_with_def
      view_of_def restart_def restart_resume_def Set_add_def Set_delete_def fireDidChange_def)

subsection \<open>Adding a watch expression\<close>

lemma fired_times:
  "didChangeWatchExpressions ((fireDidChangeWatchExpressions ^^ n) vm) =
     didChangeWatchExpressions vm + n \<and>
   watchExpressions ((fireDidChangeWatchExpressions ^^ n) vm) = watchExpressions vm \<and>
   sessions ((fireDidChangeWatchExpressions ^^ n) vm) = sessions vm \<and>
   didChange ((fireDidChangeWatchExpressions ^^ n) vm) = didChange vm"
  by (induction n) (simp_all add: fireDidChangeWatchExpressions_def)

text \<open>
  C9. Let the edit step leave the expression \<open>w\<close> after calling the callback
  \<^verbatim>\<open>onDidChange\<close> \<open>calls\<close> times. When the text of \<open>w\<close> is empty,
  \<^verbatim>\<open>addWatchExpression\<close> returns nothing, the list is unchanged, and "watch expressions
  changed" has fired \<open>calls\<close> times, all of them from the edit step; with an edit step
  that never calls the callback the view model is left as it was. When the text is not
  empty, it returns \<open>w\<close>, the list is the old list followed by \<open>w\<close>, and "watch
  expressions changed" has fired once more than the edit step fired it. The "changed"
  signal and the set of sessions are untouched.
\<close>

theorem addWatchExpression_result:
  "edit \<lparr>expression = text\<rparr> = (w, calls) \<longrightarrow>
     (expression w = [] \<longrightarrow>
        fst (addWatchExpression edit text vm) = None \<and>
        watchExpressions (snd (addWatchExpression edit text vm)) = watchExpressions vm \<and>
        didChangeWatchExpressions (snd (addWatchExpression edit text vm)) =
          didChangeWatchExpressions vm + calls) \<and>
     (expression w = [] \<and> calls = 0 \<longrightarrow> addWatchExpression edit text vm = (None, vm)) \<and>
     (expression w \<noteq> [] \<longrightarrow>
        fst (addWatchExpression edit text vm) = Some w \<and>
        watchExpressions (snd (addWatchExpression edit text vm)) = watchExpressions vm @ [w] \<and>
        length (watchExpressions (snd (addWatchExpression edit text vm))) =
          length (watchExpressions vm) + 1 \<and>
        didChangeWatchExpressions (snd (addWatchExpression edit text vm)) =
          didChangeWatchExpressions vm + calls + 1) \<and>
     didChange (snd (addWatchExpression edit text vm)) = didChange vm \<and>
     sessions (snd (addWatchExpression edit text vm)) = sessions vm"
  using fired_times [of calls vm]
  by (simp add: addWatchExpression_def addWatchExpression_resume_def
      fireDidChangeWatchExpressions_def)

text \<open>
  A silent edit that leaves the text empty, a silent edit that enters a text, and an edit
  that enters a text and calls the callback once.
\<close>

theorem addWatchExpression_result_witness:
  "addWatchExpression (edit_to []) [] (view_of [1]) = (None, view_of [1]) \<and>
   fst (addWatchExpression (edit_to ''a + b'') [] (view_of [1])) = Some \<lparr>expression = ''a + b''\<rparr> \<and>
   watchExpressions (snd (addWatchExpression (edit_to ''a + b'') [] (view_of [1]))) =
     [\<lparr>expression = ''a + b''\<rparr>] \<and>
   didChangeWatchExpressions (snd (addWatchExpression (edit_to ''a + b'') [] (view_of [1]))) = 1 \<and>
   didChangeWatchExpressions (snd (addWatchExpression (edit_notifying ''a + b'') [] (view_of [1]))) = 2"
proof -
  have e: "edit_to [] \<lparr>expression = []\<rparr> = (\<lparr>expression = []\<rparr>, 0)"
    and f: "edit_to ''a + b'' \<lparr>expression = []\<rparr> = (\<lparr>expression = ''a + b''\<rparr>, 0)"
    and g: "edit_notifying ''a + b'' \<lparr>expression = []\<rparr> = (\<lparr>expression = ''a + b''\<rparr>, 1)"
    by (simp_all add: edit_to_def edit_notifying_def)
  have a: "addWatchExpression (edit_to []) [] (view_of [1]) = (None, view_of [1])"
    using addWatchExpression_result
      [of "edit_to []" "[]" "\<lparr>expression = []\<rparr>" 0 "view_of [1]", THEN mp, OF e]
    by simp
  have b: "fst (addWatchExpression (edit_to ''a + b'') [] (view_of [1])) = Some \<lparr>expression = ''a + b''\<rparr> \<and>
      watchExpressions (snd (addWatchExpression (edit_to ''a + b'') [] (view_of [1]))) =
        [\<lparr>expression = ''a + b''\<rparr>] \<and>
      didChangeWatchExpressions (snd (addWatchExpression (edit_to ''a + b'') [] (view_of [1]))) = 1"
    using addWatchExpression_result
      [of "edit_to ''a + b''" "[]" "\<lparr>expression = ''a + b''\<rparr>" 0 "view_of [1]", THEN mp, OF f]
    by (simp add: view_of_def)
  have c: "didChangeWatchExpressions
      (snd (addWatchExpression (edit_notifying ''a + b'') [] (view_of [1]))) = 2"
    using addWatchExpression_result
      [of "edit_notifying ''a + b''" "[]" "\<lparr>expression = ''a + b''\<rparr>" 1 "view_of [1]", THEN mp, OF g]
    by (simp add: view_of_def)
  show ?thesis using a b c by simp
qed

text \<open>
  The edit step calls the callback once. With the text left empty, nothing is returned and
  the list is unchanged, and "watch expressions changed" has fired once; with a text
  entered, it has fired twice.
\<close>

theorem addWatchExpression_counterexample:
  "fst (addWatchExpression (edit_notifying []) [] (view_of [1])) = None \<and>
   watchExpressions (snd (addWatchExpression (edit_notifying []) [] (view_of [1]))) = [] \<and>
   didChangeWatchExpressions (view_of [1]) = 0 \<and>
   didChangeWatchExpressions (snd (addWatchExpression (edit_notifying []) [] (view_of [1]))) = 1 \<and>
   fst (addWatchExpression (edit_notifying ''a + b'') [] (view_of [1])) =
     Some \<lparr>expression = ''a + b''\<rparr> \<and>
   didChangeWatchExpressions
     (snd (addWatchExpression (edit_notifying ''a + b'') [] (view_of [1]))) = 2"
  by (simp add: addWatchExpression_def addWatchExpression_resume_def edit_notifying_def
      fireDidChangeWatchExpressions_def view_of_def)

subsection \<open>Refreshing the watch expressions\<close>
































end
